theory Spec2Isabelle
  imports Main "HOL-Library.Signed_Division"
begin

section \<open>The Bridge: a tabbed terminal dashboard\<close>

text \<open>
  The dashboard is a Bubble Tea program: a composer (package \<open>ui\<close>) owning four panes
  (packages \<open>shell\<close>, \<open>jira\<close>, \<open>github\<close>, \<open>chat\<close>), each with an \<open>Update\<close> function
  from a message to a new pane and a command. Go strings are byte lists (\<open>string\<close>),
  Go's \<open>int\<close> is a 64-bit signed integer, an \<open>error\<close> is represented by its text, and a
  run-time panic is a value of the type \<open>panic\<close>, so a function that can panic returns
  \<open>panic + 'a\<close>.
\<close>

subsection \<open>Go values\<close>

type_synonym error = string

datatype panic = IndexOutOfRange | InterfaceConversion | NilDereference | DivideByZero

abbreviation nl :: string where
  "nl \<equiv> [CHR 0x0A]"

text \<open>The wrap-around of a 64-bit signed addition, and Go's remainder, which truncates
  towards zero.\<close>

definition int64 :: "int \<Rightarrow> int" where
  "int64 k = signed_take_bit 63 k"

definition go_rem :: "int \<Rightarrow> int \<Rightarrow> int" where
  "go_rem a b = a smod b"

text \<open>
  \<open>strings.TrimSpace\<close> and \<open>strings.Fields\<close> cut a string at the characters
  \<open>unicode.IsSpace\<close> accepts. The strings are UTF-8; \<open>white_space\<close> lists the encodings of
  those characters (U+0009 to U+000D, U+0020, U+0085, U+00A0, U+1680, U+2000 to U+200A, U+2028,
  U+2029, U+202F, U+205F, U+3000). An encoding starts with a byte that is never inside another
  character, so a white-space character is where its bytes are. \<open>space_flags\<close> tells for
  each byte of a string whether it belongs to a white-space character, \<open>TrimSpace\<close> drops
  the flagged bytes at both ends, and \<open>Fields\<close> gives the runs of bytes that are not flagged.
\<close>

definition white_space :: "string list" where
  "white_space =
     [[CHR 0x09], [CHR 0x0A], [CHR 0x0B], [CHR 0x0C], [CHR 0x0D], [CHR 0x20],
      [CHR 0xC2, CHR 0x85], [CHR 0xC2, CHR 0xA0],
      [CHR 0xE1, CHR 0x9A, CHR 0x80],
      [CHR 0xE2, CHR 0x80, CHR 0x80], [CHR 0xE2, CHR 0x80, CHR 0x81], [CHR 0xE2, CHR 0x80, CHR 0x82],
      [CHR 0xE2, CHR 0x80, CHR 0x83], [CHR 0xE2, CHR 0x80, CHR 0x84], [CHR 0xE2, CHR 0x80, CHR 0x85],
      [CHR 0xE2, CHR 0x80, CHR 0x86], [CHR 0xE2, CHR 0x80, CHR 0x87], [CHR 0xE2, CHR 0x80, CHR 0x88],
      [CHR 0xE2, CHR 0x80, CHR 0x89], [CHR 0xE2, CHR 0x80, CHR 0x8A],
      [CHR 0xE2, CHR 0x80, CHR 0xA8], [CHR 0xE2, CHR 0x80, CHR 0xA9], [CHR 0xE2, CHR 0x80, CHR 0xAF],
      [CHR 0xE2, CHR 0x81, CHR 0x9F],
      [CHR 0xE3, CHR 0x80, CHR 0x80]]"

definition space_width :: "string \<Rightarrow> nat" where
  "space_width s = (case find (\<lambda>p. take (length p) s = p) white_space of None \<Rightarrow> 0 | Some p \<Rightarrow> length p)"

fun space_flags :: "string \<Rightarrow> nat \<Rightarrow> bool list" where
  "space_flags [] k = []"
| "space_flags (c # cs) k =
     (if k > 0 then True # space_flags cs (k - 1)
      else if space_width (c # cs) > 0 then True # space_flags cs (space_width (c # cs) - 1)
      else False # space_flags cs 0)"

definition marked :: "string \<Rightarrow> (char \<times> bool) list" where
  "marked s = zip s (space_flags s 0)"

definition TrimSpace :: "string \<Rightarrow> string" where
  "TrimSpace s = map fst (rev (dropWhile snd (rev (dropWhile snd (marked s)))))"

fun fields_from :: "(char \<times> bool) list \<Rightarrow> string \<Rightarrow> string list" where
  "fields_from [] w = (if w = [] then [] else [w])"
| "fields_from ((c, sp) # cs) w =
     (if sp then (if w = [] then fields_from cs [] else w # fields_from cs [])
      else fields_from cs (w @ [c]))"

definition Fields :: "string \<Rightarrow> string list" where
  "Fields s = fields_from (marked s) []"

text \<open>\<open>filepath.IsAbs\<close> on a Unix system.\<close>

definition IsAbs :: "string \<Rightarrow> bool" where
  "IsAbs p = (case p of [] \<Rightarrow> False | c # _ \<Rightarrow> c = CHR ''/'')"

text \<open>\<open>%d\<close> of \<open>fmt.Sprintf\<close>.\<close>

fun digits :: "nat \<Rightarrow> string" where
  "digits n = (if n < 10 then [char_of (48 + n)] else digits (n div 10) @ [char_of (48 + n mod 10)])"

definition itoa :: "int \<Rightarrow> string" where
  "itoa k = (if k < 0 then CHR ''-'' # digits (nat (- k)) else digits (nat k))"

subsection \<open>Messages and commands\<close>

text \<open>
  A \<open>tea.KeyMsg\<close> is seen by this program through its \<open>Type\<close> and through \<open>String()\<close>: the
  two are the arguments of \<open>KeyMsg\<close> (for a key of type \<open>KeyRunes\<close> the string is the text
  typed). Each pane package declares message types of its own. The type \<open>errMsg\<close> that
  the jira, github and chat packages each declare is the interface type \<open>error\<close> under
  another name, so a \<open>case errMsg\<close> of any of the three matches every error value, whichever
  pane's command returned it: there is one constructor \<open>errMsg\<close>. \<open>LibMsg\<close> stands for the
  messages of the widget library (cursor blink and the like).
\<close>

datatype KeyType = KeyEnter | KeyTab | KeyCtrlC | KeyRunes | KeyOther

record JiraIssue =
  Key :: string
  Summary :: string
  StatusName :: string

record GitHubIssue =
  Number :: int
  Title :: string
  State :: string
  UserLogin :: string

datatype msg =
    KeyMsg KeyType string
  | WindowSizeMsg int int
  | jira_issuesFetchedMsg "JiraIssue list"
  | github_issuesFetchedMsg "GitHubIssue list"
  | chat_responseMsg string
  | errMsg error
  | LibMsg nat

text \<open>
  A \<open>tea.Cmd\<close> is a value; running it is the executor's work. \<open>sendMessage\<close> closes over the
  chat pane by value and reads its \<open>chatSession\<close> only, so the command records whether that
  pointer was set, and the text.
\<close>

datatype cmd =
    cmd_nil
  | tea_Quit
  | textinput_Blink
  | textarea_Blink
  | jira_fetchIssues
  | github_fetchIssues
  | sendMessage bool string
  | LibCmd nat
  | tea_Batch "cmd list"

text \<open>The commands a command stands for, once batches are opened.\<close>

fun leaves :: "cmd \<Rightarrow> cmd list" where
  "leaves cmd_nil = []"
| "leaves (tea_Batch cs) = concat (map leaves cs)"
| "leaves c = [c]"

fun is_sendMessage :: "cmd \<Rightarrow> bool" where
  "is_sendMessage (sendMessage s t) = True"
| "is_sendMessage c = False"

subsection \<open>The widgets of the library\<close>

text \<open>
  The widgets (\<open>viewport\<close>, \<open>textinput\<close>, \<open>textarea\<close>, \<open>list\<close> of the bubbles library) are
  external. Their state is the fields the panes read and write; the setters below are the
  library's; what a widget does with a message, and how text is rendered or styled, is a
  parameter (the record \<open>lib\<close>).
\<close>

record viewport =
  vp_Width :: int
  vp_Height :: int
  vp_content :: string
  vp_YOffset :: int

record textinput =
  ti_value :: string
  ti_Width :: int

record textarea =
  ta_value :: string
  ta_width :: int
  ta_height :: int

record item =
  title :: string
  desc :: string

record list_Model =
  l_items :: "item list"
  l_width :: int
  l_height :: int

definition viewport_New :: "int \<Rightarrow> int \<Rightarrow> viewport" where
  "viewport_New w h = \<lparr>vp_Width = w, vp_Height = h, vp_content = [], vp_YOffset = 0\<rparr>"

definition line_count :: "string \<Rightarrow> int" where
  "line_count s = int (length (filter (\<lambda>c. c = CHR 0x0A) s)) + 1"

definition GotoBottom :: "viewport \<Rightarrow> viewport" where
  "GotoBottom vp = vp\<lparr>vp_YOffset := max 0 (line_count (vp_content vp) - vp_Height vp)\<rparr>"

definition SetContent :: "string \<Rightarrow> viewport \<Rightarrow> viewport" where
  "SetContent s vp =
     (let vp = vp\<lparr>vp_content := s\<rparr>
      in if vp_YOffset vp > line_count s - 1 then GotoBottom vp else vp)"

definition Reset :: "textinput \<Rightarrow> textinput" where
  "Reset ti = ti\<lparr>ti_value := []\<rparr>"

definition textarea_Reset :: "textarea \<Rightarrow> textarea" where
  "textarea_Reset ta = ta\<lparr>ta_value := []\<rparr>"

definition list_New :: "item list \<Rightarrow> int \<Rightarrow> int \<Rightarrow> list_Model" where
  "list_New items w h = \<lparr>l_items = items, l_width = w, l_height = h\<rparr>"

definition SetItems :: "item list \<Rightarrow> list_Model \<Rightarrow> list_Model" where
  "SetItems items l = l\<lparr>l_items := items\<rparr>"

definition list_SetSize :: "int \<Rightarrow> int \<Rightarrow> list_Model \<Rightarrow> list_Model" where
  "list_SetSize w h l = l\<lparr>l_width := w, l_height := h\<rparr>"

text \<open>A decoded JSON value, as Go's \<open>any\<close> holds it: reading a key that a map does not
  have gives \<open>nil\<close>, as reading a JSON \<open>null\<close> does.\<close>

datatype any =
    ANil
  | ABool bool
  | ANumber int
  | AString string
  | ANilSlice
  | ASlice "any list"
  | AMap "(string \<times> any) list"

definition index :: "(string \<times> any) list \<Rightarrow> string \<Rightarrow> any" where
  "index m k = (case map_of m k of None \<Rightarrow> ANil | Some v \<Rightarrow> v)"

record lib =
  textinput_Update :: "msg \<Rightarrow> textinput \<Rightarrow> textinput \<times> cmd"
  textarea_Update :: "msg \<Rightarrow> textarea \<Rightarrow> textarea \<times> cmd"
  textarea_SetWidth :: "int \<Rightarrow> textarea \<Rightarrow> textarea"
  viewport_Update :: "msg \<Rightarrow> viewport \<Rightarrow> viewport \<times> cmd"
  viewport_View :: "viewport \<Rightarrow> string"
  list_Update :: "msg \<Rightarrow> list_Model \<Rightarrow> list_Model \<times> cmd"
  pathStyle_Render :: "string \<Rightarrow> string"
  errStyle_Render :: "string \<Rightarrow> string"
  filepath_Join :: "string \<Rightarrow> string \<Rightarrow> string"
  filepath_Base :: "string \<Rightarrow> string"
  base64_EncodeToString :: "string \<Rightarrow> string"
  MarshalIndent :: "any \<Rightarrow> string"
  Decode_JiraSearchResponse :: "string \<Rightarrow> error + JiraIssue list"
  Decode_GitHubIssues :: "string \<Rightarrow> error + GitHubIssue list"
  Decode_map :: "string \<Rightarrow> error + (string \<times> any) list"
  Decode_maps :: "string \<Rightarrow> error + (string \<times> any) list list"

subsection \<open>The operating system and the network\<close>

text \<open>
  What the program reads from outside: the environment variables, the file system, child
  processes, the HTTP servers and the model service. A reply of the model service is a list
  of candidates, each with the parts of its content (\<open>None\<close> for a candidate whose
  \<open>Content\<close> pointer is nil). The environment answers the same way throughout a run;
  \<open>UserHomeDir\<close> is the empty string when \<open>os.UserHomeDir\<close> fails, and \<open>Stat_IsDir\<close> holds
  of a path when \<open>os.Stat\<close> succeeds on it and reports a directory.
\<close>

record request =
  req_url :: string
  req_header :: "(string \<times> string) list"

record response =
  StatusCode :: int
  Status :: string
  Body :: string

datatype part = Text string | FunctionCall string | OtherPart

record env =
  Getenv :: "string \<Rightarrow> string"
  Getwd :: string
  UserHomeDir :: string
  Stat_IsDir :: "string \<Rightarrow> bool"
  CombinedOutput :: "string \<Rightarrow> string list \<Rightarrow> string \<Rightarrow> string \<times> error option"
  NewRequest_ok :: "string \<Rightarrow> bool"
  client_Do :: "request \<Rightarrow> error + response"
  genai_NewClient :: "error option"
  chatSession_SendMessage :: "string \<Rightarrow> error + part list option list"

subsection \<open>The Shell pane (package shell)\<close>

record shell_Model =
  shell_viewport :: viewport
  textInput :: textinput
  currentDir :: string
  shell_err :: "error option"

definition shell_New :: "env \<Rightarrow> shell_Model" where
  "shell_New E =
     (let cwd = Getwd E;
          ti = \<lparr>ti_value = [], ti_Width = 20\<rparr>;
          vp = viewport_New 30 20;
          vp = SetContent (''Welcome to TermiFlow Shell!'' @ nl @ ''Current Directory: '' @ cwd @ nl) vp
      in \<lparr>shell_viewport = vp, textInput = ti, currentDir = cwd, shell_err = None\<rparr>)"

definition shell_Init :: "shell_Model \<Rightarrow> cmd" where
  "shell_Init m = textinput_Blink"

text \<open>The directory \<open>cd\<close> checks: its first argument, or the home directory when there is
  none, joined to the current directory unless absolute (lines 112 to 122).\<close>

definition cd_target :: "lib \<Rightarrow> env \<Rightarrow> shell_Model \<Rightarrow> string list \<Rightarrow> string" where
  "cd_target L E m cmdArgs =
     (let targetDir = (case cmdArgs of a # _ \<Rightarrow> a | [] \<Rightarrow> UserHomeDir E)
      in if \<not> IsAbs targetDir then filepath_Join L (currentDir m) targetDir else targetDir)"

definition executeCommand :: "lib \<Rightarrow> env \<Rightarrow> shell_Model \<Rightarrow> string \<Rightarrow> panic + (string \<times> string)" where
  "executeCommand L E m input =
     (if TrimSpace input = [] then Inr ([], [])
      else case Fields input of
        [] \<Rightarrow> Inl IndexOutOfRange
      | cmdName # cmdArgs \<Rightarrow>
          if cmdName = ''cd'' then
            (let targetDir = cd_target L E m cmdArgs
             in if \<not> Stat_IsDir E targetDir then
                  (case cmdArgs of
                     [] \<Rightarrow> Inl IndexOutOfRange
                   | a # _ \<Rightarrow> Inr (errStyle_Render L (''cd: '' @ a @ '': No such directory''), []))
                else Inr ([], targetDir))
          else
            (case CombinedOutput E cmdName cmdArgs (currentDir m) of
               (out, Some err) \<Rightarrow> Inr (errStyle_Render L (''Error: '' @ err), [])
             | (out, None) \<Rightarrow> Inr (out, [])))"

text \<open>The prompt line written to the transcript.\<close>

definition prompt_line :: "lib \<Rightarrow> string \<Rightarrow> string \<Rightarrow> string" where
  "prompt_line L dir cmdStr = pathStyle_Render L (filepath_Base L dir) @ '' $ '' @ cmdStr"

definition shell_Update :: "lib \<Rightarrow> env \<Rightarrow> shell_Model \<Rightarrow> msg \<Rightarrow> panic + (shell_Model \<times> cmd)" where
  "shell_Update L E m msg =
     (let (ti, tiCmd) = textinput_Update L msg (textInput m);
          (vp, vpCmd) = viewport_Update L msg (shell_viewport m);
          m = m\<lparr>textInput := ti, shell_viewport := vp\<rparr>
      in case msg of
           KeyMsg KeyEnter s \<Rightarrow>
             (let cmdStr = ti_value (textInput m);
                  m = m\<lparr>textInput := Reset (textInput m)\<rparr>
              in case executeCommand L E m cmdStr of
                   Inl p \<Rightarrow> Inl p
                 | Inr (output, newDir) \<Rightarrow>
                     (let m = (if newDir \<noteq> [] then m\<lparr>currentDir := newDir\<rparr> else m);
                          prompt = prompt_line L (currentDir m) cmdStr;
                          newContent = viewport_View L (shell_viewport m) @ nl @ prompt @ nl @ output;
                          m = m\<lparr>shell_viewport := GotoBottom (SetContent newContent (shell_viewport m))\<rparr>
                      in Inr (m, tea_Batch [tiCmd, vpCmd])))
         | WindowSizeMsg w h \<Rightarrow>
             Inr (m\<lparr>shell_viewport := (shell_viewport m)\<lparr>vp_Width := w, vp_Height := int64 (h - 3)\<rparr>,
                     textInput := (textInput m)\<lparr>ti_Width := w\<rparr>\<rparr>,
                  tea_Batch [tiCmd, vpCmd])
         | _ \<Rightarrow> Inr (m, tea_Batch [tiCmd, vpCmd]))"

subsection \<open>The Jira pane (package jira)\<close>

record jira_Model =
  jira_list :: list_Model
  jira_loading :: bool
  jira_err :: "error option"

definition jira_New :: jira_Model where
  "jira_New =
     \<lparr>jira_list = list_New [\<lparr>title = ''Setup Required'',
                               desc = ''Please set JIRA_URL, JIRA_EMAIL, JIRA_TOKEN''\<rparr>] 0 0,
      jira_loading = False, jira_err = None\<rparr>"

text \<open>What running the command \<open>fetchIssues()\<close> gives: a panic, no message (\<open>nil\<close>), or a
  message. \<open>http.NewRequest\<close> returns a nil request for a URL it cannot parse; its error is
  dropped, and the next line dereferences the request.\<close>

definition run_jira_fetchIssues :: "lib \<Rightarrow> env \<Rightarrow> panic + msg option" where
  "run_jira_fetchIssues L E =
     (let baseURL = Getenv E ''JIRA_URL'';
          email = Getenv E ''JIRA_EMAIL'';
          token = Getenv E ''JIRA_TOKEN''
      in if baseURL = [] \<or> email = [] \<or> token = [] then Inr None
         else
           (let url = baseURL @ ''/rest/api/3/search?jql=assignee=currentUser()'';
                auth = base64_EncodeToString L (email @ '':'' @ token);
                req = \<lparr>req_url = url,
                       req_header = [(''Authorization'', ''Basic '' @ auth), (''Accept'', ''application/json'')]\<rparr>
            in if \<not> NewRequest_ok E url then Inl NilDereference
               else case client_Do E req of
                 Inl err \<Rightarrow> Inr (Some (errMsg err))
               | Inr resp \<Rightarrow>
                   if StatusCode resp \<noteq> 200 then Inr (Some (errMsg (''API Error: '' @ Status resp)))
                   else (case Decode_JiraSearchResponse L (Body resp) of
                           Inl err \<Rightarrow> Inr (Some (errMsg err))
                         | Inr issues \<Rightarrow> Inr (Some (jira_issuesFetchedMsg issues)))))"

definition jira_Init :: "jira_Model \<Rightarrow> cmd" where
  "jira_Init m = jira_fetchIssues"

definition jira_item :: "JiraIssue \<Rightarrow> item" where
  "jira_item issue =
     \<lparr>title = Key issue @ '' '' @ Summary issue, desc = ''Status: '' @ StatusName issue\<rparr>"

definition jira_Update :: "lib \<Rightarrow> jira_Model \<Rightarrow> msg \<Rightarrow> jira_Model \<times> cmd" where
  "jira_Update L m msg =
     (let m = (case msg of
                 WindowSizeMsg w h \<Rightarrow> m\<lparr>jira_list := list_SetSize w h (jira_list m)\<rparr>
               | jira_issuesFetchedMsg issues \<Rightarrow>
                   (let items = map jira_item issues;
                        m = (if length items > 0 then m\<lparr>jira_list := SetItems items (jira_list m)\<rparr>
                             else m\<lparr>jira_list :=
                                      SetItems [\<lparr>title = ''No issues found'',
                                                  desc = ''You have no assigned issues.''\<rparr>] (jira_list m)\<rparr>)
                    in m\<lparr>jira_loading := False\<rparr>)
               | errMsg e \<Rightarrow>
                   m\<lparr>jira_err := Some e, jira_loading := False,
                     jira_list := SetItems [\<lparr>title = ''Error'', desc = e\<rparr>] (jira_list m)\<rparr>
               | _ \<Rightarrow> m);
          (l, cmd) = list_Update L msg (jira_list m)
      in (m\<lparr>jira_list := l\<rparr>, cmd))"

definition jira_SetSize :: "int \<Rightarrow> int \<Rightarrow> jira_Model \<Rightarrow> jira_Model" where
  "jira_SetSize w h m = m\<lparr>jira_list := list_SetSize w h (jira_list m)\<rparr>"

subsection \<open>The GitHub pane (package github)\<close>

record github_Model =
  github_list :: list_Model
  github_loading :: bool
  github_err :: "error option"

definition github_New :: github_Model where
  "github_New = \<lparr>github_list = list_New [] 0 0, github_loading = False, github_err = None\<rparr>"

definition run_github_fetchIssues :: "lib \<Rightarrow> env \<Rightarrow> panic + msg option" where
  "run_github_fetchIssues L E =
     (let url = ''https://api.github.com/repos/charmbracelet/bubbletea/issues?state=open&per_page=10'';
          token = Getenv E ''GITHUB_TOKEN'';
          req = \<lparr>req_url = url,
                 req_header = (''User-Agent'', ''TermiFlow'')
                   # (if token \<noteq> [] then [(''Authorization'', ''Bearer '' @ token)] else [])\<rparr>
      in if \<not> NewRequest_ok E url then Inl NilDereference
         else case client_Do E req of
           Inl err \<Rightarrow> Inr (Some (errMsg err))
         | Inr resp \<Rightarrow>
             if StatusCode resp \<noteq> 200 then Inr (Some (errMsg (''API Error: '' @ Status resp)))
             else (case Decode_GitHubIssues L (Body resp) of
                     Inl err \<Rightarrow> Inr (Some (errMsg err))
                   | Inr issues \<Rightarrow> Inr (Some (github_issuesFetchedMsg issues))))"

definition github_Init :: "github_Model \<Rightarrow> cmd" where
  "github_Init m = github_fetchIssues"

definition github_item :: "GitHubIssue \<Rightarrow> item" where
  "github_item issue =
     \<lparr>title = ''#'' @ itoa (Number issue) @ '' '' @ Title issue,
      desc = ''by '' @ UserLogin issue @ '' ['' @ State issue @ '']''\<rparr>"

definition github_Update :: "lib \<Rightarrow> github_Model \<Rightarrow> msg \<Rightarrow> github_Model \<times> cmd" where
  "github_Update L m msg =
     (let m = (case msg of
                 WindowSizeMsg w h \<Rightarrow> m\<lparr>github_list := list_SetSize w h (github_list m)\<rparr>
               | github_issuesFetchedMsg issues \<Rightarrow>
                   (let items = map github_item issues
                    in m\<lparr>github_list := SetItems items (github_list m), github_loading := False\<rparr>)
               | errMsg e \<Rightarrow> m\<lparr>github_err := Some e, github_loading := False\<rparr>
               | _ \<Rightarrow> m);
          (l, cmd) = list_Update L msg (github_list m)
      in (m\<lparr>github_list := l\<rparr>, cmd))"

definition github_SetSize :: "int \<Rightarrow> int \<Rightarrow> github_Model \<Rightarrow> github_Model" where
  "github_SetSize w h m = m\<lparr>github_list := list_SetSize w h (github_list m)\<rparr>"

subsection \<open>The tools of the chat agent (package chat, tools.go)\<close>

text \<open>A tool returns a value and an error, or panics: an unchecked type assertion
  \<open>x.(T)\<close> panics when \<open>x\<close> does not hold a \<open>T\<close>.\<close>

definition slice_of :: "any list \<Rightarrow> any" where
  "slice_of xs = (if xs = [] then ANilSlice else ASlice xs)"

fun github_simplify :: "(string \<times> any) list list \<Rightarrow> panic + any list" where
  "github_simplify [] = Inr []"
| "github_simplify (i # rest) =
     (case index i ''user'' of
        AMap u \<Rightarrow>
          (case github_simplify rest of
             Inl p \<Rightarrow> Inl p
           | Inr simplified \<Rightarrow>
               Inr (AMap [(''number'', index i ''number''), (''title'', index i ''title''),
                         (''user'', index u ''login''), (''state'', index i ''state'')] # simplified))
      | _ \<Rightarrow> Inl InterfaceConversion)"

definition getGitHubIssues :: "lib \<Rightarrow> env \<Rightarrow> panic + (error + any)" where
  "getGitHubIssues L E =
     (let repo = Getenv E ''GITHUB_REPO'';
          repo = (if repo = [] then ''charmbracelet/bubbletea'' else repo);
          url = ''https://api.github.com/repos/'' @ repo @ ''/issues?state=open&per_page=5'';
          token = Getenv E ''GITHUB_TOKEN'';
          req = \<lparr>req_url = url,
                 req_header = (''User-Agent'', ''TermiFlow'')
                   # (if token \<noteq> [] then [(''Authorization'', ''Bearer '' @ token)] else [])\<rparr>
      in if \<not> NewRequest_ok E url then Inl NilDereference
         else case client_Do E req of
           Inl err \<Rightarrow> Inr (Inl err)
         | Inr resp \<Rightarrow>
             if StatusCode resp \<noteq> 200 then Inr (Inl (''GitHub API Error: '' @ Status resp))
             else (case Decode_maps L (Body resp) of
                     Inl err \<Rightarrow> Inr (Inl err)
                   | Inr issues \<Rightarrow>
                       (case github_simplify issues of
                          Inl p \<Rightarrow> Inl p
                        | Inr simplified \<Rightarrow> Inr (Inr (AMap [(''issues'', slice_of simplified)])))))"

fun jira_simplify :: "any list \<Rightarrow> panic + any list" where
  "jira_simplify [] = Inr []"
| "jira_simplify (i # rest) =
     (case i of
        AMap issue \<Rightarrow>
          (case index issue ''fields'' of
             AMap flds \<Rightarrow>
               (case index flds ''status'' of
                  AMap status \<Rightarrow>
                    (case jira_simplify rest of
                       Inl p \<Rightarrow> Inl p
                     | Inr simplified \<Rightarrow>
                         Inr (AMap [(''key'', index issue ''key''), (''summary'', index flds ''summary''),
                                   (''status'', index status ''name'')] # simplified))
                | _ \<Rightarrow> Inl InterfaceConversion)
           | _ \<Rightarrow> Inl InterfaceConversion)
      | _ \<Rightarrow> Inl InterfaceConversion)"

definition getJiraIssues :: "lib \<Rightarrow> env \<Rightarrow> panic + (error + any)" where
  "getJiraIssues L E =
     (let baseURL = Getenv E ''JIRA_URL'';
          email = Getenv E ''JIRA_EMAIL'';
          token = Getenv E ''JIRA_TOKEN''
      in if baseURL = [] \<or> email = [] \<or> token = [] then
           Inr (Inl ''Jira credentials not set (JIRA_URL, JIRA_EMAIL, JIRA_TOKEN)'')
         else
           (let url = baseURL @ ''/rest/api/3/search?jql=assignee=currentUser()&maxResults=5'';
                auth = base64_EncodeToString L (email @ '':'' @ token);
                req = \<lparr>req_url = url,
                       req_header = [(''Authorization'', ''Basic '' @ auth), (''Accept'', ''application/json'')]\<rparr>
            in if \<not> NewRequest_ok E url then Inl NilDereference
               else case client_Do E req of
                 Inl err \<Rightarrow> Inr (Inl err)
               | Inr resp \<Rightarrow>
                   if StatusCode resp \<noteq> 200 then Inr (Inl (''Jira API Error: '' @ Status resp))
                   else (case Decode_map L (Body resp) of
                           Inl err \<Rightarrow> Inr (Inl err)
                         | Inr result \<Rightarrow>
                             (case index result ''issues'' of
                                ASlice issues \<Rightarrow>
                                  (case jira_simplify issues of
                                     Inl p \<Rightarrow> Inl p
                                   | Inr simplified \<Rightarrow> Inr (Inr (AMap [(''issues'', slice_of simplified)])))
                              | _ \<Rightarrow> Inl InterfaceConversion))))"

definition toolFunctions :: "string \<Rightarrow> (lib \<Rightarrow> env \<Rightarrow> panic + (error + any)) option" where
  "toolFunctions name =
     (if name = ''get_github_issues'' then Some getGitHubIssues
      else if name = ''get_jira_issues'' then Some getJiraIssues
      else None)"

subsection \<open>The Chat pane (package chat)\<close>

record Message =
  Role :: string
  Content :: string

text \<open>The pointers \<open>client\<close> and \<open>chatSession\<close> are nil or set; \<open>model\<close> holds the name
  of the generative model once it is set.\<close>

record chat_Model =
  chat_viewport :: viewport
  chat_textarea :: textarea
  messages :: "Message list"
  client :: bool
  model :: "string option"
  chatSession :: bool
  chat_err :: "error option"
  initialized :: bool

definition chat_New :: "lib \<Rightarrow> chat_Model" where
  "chat_New L =
     (let ta = \<lparr>ta_value = [], ta_width = 0, ta_height = 0\<rparr>;
          ta = textarea_SetWidth L 50 ta;
          ta = ta\<lparr>ta_height := 3\<rparr>;
          vp = viewport_New 50 10;
          vp = SetContent (''Welcome to The Bridge Chat! '' @ [CHR 0xF0, CHR 0x9F, CHR 0xA4, CHR 0x96] @ nl
                 @ ''Type a message and press Enter to chat with Gemini.'' @ nl) vp
      in \<lparr>chat_viewport = vp, chat_textarea = ta, messages = [], client = False, model = None,
          chatSession = False, chat_err = None, initialized = False\<rparr>)"

definition chat_Init :: "chat_Model \<Rightarrow> cmd" where
  "chat_Init m = textarea_Blink"

definition ensureClient :: "env \<Rightarrow> chat_Model \<Rightarrow> error option \<times> chat_Model" where
  "ensureClient E m =
     (if client m then (None, m)
      else
        (let apiKey = Getenv E ''GEMINI_API_KEY''
         in if apiKey = [] then (Some ''GEMINI_API_KEY environment variable not set'', m)
            else case genai_NewClient E of
              Some err \<Rightarrow> (Some err, m)
            | None \<Rightarrow>
                (let modelName = Getenv E ''GEMINI_MODEL'';
                     modelName = (if modelName = [] then ''gemini-1.5-flash-002'' else modelName)
                 in (None, m\<lparr>client := True, model := Some modelName, chatSession := True,
                              initialized := True\<rparr>))))"

text \<open>The loop over the parts of the first candidate (lines 292 to 323): text is copied, a
  function call runs the tool and writes its result, or its error, into the same text.\<close>

fun response_parts :: "lib \<Rightarrow> env \<Rightarrow> part list \<Rightarrow> string \<Rightarrow> panic + string" where
  "response_parts L E [] responseBuilder = Inr responseBuilder"
| "response_parts L E (Text p # ps) responseBuilder = response_parts L E ps (responseBuilder @ p)"
| "response_parts L E (FunctionCall name # ps) responseBuilder =
     (case toolFunctions name of
        Some fn \<Rightarrow>
          (case fn L E of
             Inl pn \<Rightarrow> Inl pn
           | Inr (Inl err) \<Rightarrow>
               response_parts L E ps
                 (responseBuilder @ nl @ ''[Error executing '' @ name @ '': '' @ err @ '']'' @ nl)
           | Inr (Inr res) \<Rightarrow>
               response_parts L E ps
                 (responseBuilder @ nl @ ''[Tool '' @ name @ '' Output]:'' @ nl @ MarshalIndent L res @ nl))
      | None \<Rightarrow>
          response_parts L E ps (responseBuilder @ nl @ ''[Unknown tool: '' @ name @ '']'' @ nl))"
| "response_parts L E (OtherPart # ps) responseBuilder = response_parts L E ps responseBuilder"

text \<open>Running the command \<open>sendMessage(msg)\<close> of a pane whose \<open>chatSession\<close> was set or
  not.\<close>

definition run_sendMessage :: "lib \<Rightarrow> env \<Rightarrow> bool \<Rightarrow> string \<Rightarrow> panic + msg" where
  "run_sendMessage L E session text =
     (if Getenv E ''GEMINI_API_KEY'' = [] then Inr (errMsg ''GEMINI_API_KEY not set'')
      else if \<not> session then Inr (errMsg ''Chat session not initialized'')
      else case chatSession_SendMessage E text of
        Inl err \<Rightarrow> Inr (errMsg err)
      | Inr [] \<Rightarrow> Inr (errMsg ''empty response'')
      | Inr (None # _) \<Rightarrow> Inl NilDereference
      | Inr (Some parts # _) \<Rightarrow>
          if parts = [] then Inr (errMsg ''empty response'')
          else (case response_parts L E parts [] of
                  Inl p \<Rightarrow> Inl p
                | Inr response \<Rightarrow> Inr (chat_responseMsg response)))"

definition render_message :: "Message \<Rightarrow> string" where
  "render_message msg =
     (if Role msg = ''user'' then nl @ ''You: '' @ Content msg @ nl
      else if Role msg = ''model'' then ''Gemini: '' @ Content msg @ nl
      else Content msg @ nl)"

definition updateViewport :: "chat_Model \<Rightarrow> chat_Model" where
  "updateViewport m =
     (let sb = concat (map render_message (messages m))
      in if length (messages m) > 0
         then m\<lparr>chat_viewport := GotoBottom (SetContent sb (chat_viewport m))\<rparr>
         else m)"

definition chat_Update :: "lib \<Rightarrow> env \<Rightarrow> chat_Model \<Rightarrow> msg \<Rightarrow> chat_Model \<times> cmd" where
  "chat_Update L E m msg =
     (let (ta, tiCmd) = textarea_Update L msg (chat_textarea m);
          (vp, vpCmd) = viewport_Update L msg (chat_viewport m);
          m = m\<lparr>chat_textarea := ta, chat_viewport := vp\<rparr>
      in case msg of
           KeyMsg KeyEnter s \<Rightarrow>
             if ta_value (chat_textarea m) = [] then (m, tea_Batch [tiCmd, vpCmd])
             else
               (let userMsg = ta_value (chat_textarea m)
                in case ensureClient E m of
                     (Some err, m) \<Rightarrow>
                       (let m = m\<lparr>messages := messages m @ [\<lparr>Role = ''system'', Content = ''Error: '' @ err\<rparr>]\<rparr>;
                            m = updateViewport m;
                            m = m\<lparr>chat_textarea := textarea_Reset (chat_textarea m)\<rparr>
                        in (m, cmd_nil))
                   | (None, m) \<Rightarrow>
                       (let m = m\<lparr>messages := messages m @ [\<lparr>Role = ''user'', Content = userMsg\<rparr>]\<rparr>;
                            m = updateViewport m;
                            m = m\<lparr>chat_textarea := textarea_Reset (chat_textarea m)\<rparr>
                        in (m, tea_Batch [tiCmd, vpCmd, sendMessage (chatSession m) userMsg])))
         | chat_responseMsg response \<Rightarrow>
             (let m = m\<lparr>messages := messages m @ [\<lparr>Role = ''model'', Content = response\<rparr>]\<rparr>
              in (updateViewport m, tea_Batch [tiCmd, vpCmd]))
         | errMsg err \<Rightarrow>
             (let m = m\<lparr>messages := messages m @ [\<lparr>Role = ''system'', Content = ''Error: '' @ err\<rparr>]\<rparr>
              in (updateViewport m, tea_Batch [tiCmd, vpCmd]))
         | _ \<Rightarrow> (m, tea_Batch [tiCmd, vpCmd]))"

definition chat_SetSize :: "lib \<Rightarrow> int \<Rightarrow> int \<Rightarrow> chat_Model \<Rightarrow> chat_Model" where
  "chat_SetSize L w h m =
     (let m = m\<lparr>chat_textarea := textarea_SetWidth L w (chat_textarea m)\<rparr>
      in m\<lparr>chat_viewport :=
             (chat_viewport m)\<lparr>vp_Width := w,
                                vp_Height := int64 (int64 (h - ta_height (chat_textarea m)) - 2)\<rparr>\<rparr>)"

subsection \<open>The composer (package ui)\<close>

definition viewShell :: int where
  "viewShell = 0"

definition viewJira :: int where
  "viewJira = 1"

definition viewGitHub :: int where
  "viewGitHub = 2"

definition viewChat :: int where
  "viewChat = 3"


record Model =
  state :: int
  tabs :: "string list"
  shell :: shell_Model
  jira :: jira_Model
  github :: github_Model
  chat :: chat_Model
  width :: int
  height :: int

definition New :: "lib \<Rightarrow> env \<Rightarrow> Model" where
  "New L E =
     \<lparr>state = viewShell, tabs = [''Shell'', ''Jira'', ''GitHub'', ''Chat''],
      shell = shell_New E, jira = jira_New, github = github_New, chat = chat_New L,
      width = 0, height = 0\<rparr>"

definition Init :: "Model \<Rightarrow> cmd" where
  "Init m = tea_Batch [shell_Init (shell m), jira_Init (jira m), github_Init (github m), chat_Init (chat m)]"

text \<open>The second switch of \<open>Update\<close> (lines 109 to 125): the message goes to the pane the
  index \<open>state\<close> names.\<close>

definition update_active :: "lib \<Rightarrow> env \<Rightarrow> Model \<Rightarrow> msg \<Rightarrow> panic + (Model \<times> cmd)" where
  "update_active L E m msg =
     (if state m = viewShell then
        (case shell_Update L E (shell m) msg of
           Inl p \<Rightarrow> Inl p
         | Inr (sh, cmd) \<Rightarrow> Inr (m\<lparr>shell := sh\<rparr>, tea_Batch [cmd]))
      else if state m = viewJira then
        (let (j, cmd) = jira_Update L (jira m) msg in Inr (m\<lparr>jira := j\<rparr>, tea_Batch [cmd]))
      else if state m = viewGitHub then
        (let (g, cmd) = github_Update L (github m) msg in Inr (m\<lparr>github := g\<rparr>, tea_Batch [cmd]))
      else if state m = viewChat then
        (let (c, cmd) = chat_Update L E (chat m) msg in Inr (m\<lparr>chat := c\<rparr>, tea_Batch [cmd]))
      else Inr (m, tea_Batch []))"

definition Update :: "lib \<Rightarrow> env \<Rightarrow> Model \<Rightarrow> msg \<Rightarrow> panic + (Model \<times> cmd)" where
  "Update L E m msg =
     (case msg of
        KeyMsg t s \<Rightarrow>
          if s = ''ctrl+c'' then Inr (m, tea_Quit)
          else if s = ''tab'' then
            (if length (tabs m) = 0 then Inl DivideByZero
             else Inr (m\<lparr>state := go_rem (int64 (state m + 1)) (int (length (tabs m)))\<rparr>, cmd_nil))
          else update_active L E m msg
      | WindowSizeMsg w h \<Rightarrow>
          (let m = m\<lparr>width := w, height := h\<rparr>;
               contentHeight = int64 (h - 5);
               m = m\<lparr>jira := jira_SetSize w contentHeight (jira m)\<rparr>;
               m = m\<lparr>github := github_SetSize w contentHeight (github m)\<rparr>;
               m = m\<lparr>chat := chat_SetSize L w contentHeight (chat m)\<rparr>
           in update_active L E m msg)
      | _ \<Rightarrow> update_active L E m msg)"

text \<open>The event loop hands the messages to \<open>Update\<close> one at a time; the commands returned
  are collected in order. A panic ends the run.\<close>

fun Updates :: "lib \<Rightarrow> env \<Rightarrow> Model \<Rightarrow> msg list \<Rightarrow> panic + (Model \<times> cmd list)" where
  "Updates L E m [] = Inr (m, [])"
| "Updates L E m (msg # msgs) =
     (case Update L E m msg of
        Inl p \<Rightarrow> Inl p
      | Inr (m', c) \<Rightarrow>
          (case Updates L E m' msgs of
             Inl p \<Rightarrow> Inl p
           | Inr (m'', cs) \<Rightarrow> Inr (m'', c # cs)))"

text \<open>The key messages the composer reads as a tab advance.\<close>

fun is_tab :: "msg \<Rightarrow> bool" where
  "is_tab (KeyMsg t s) = (s = ''tab'')"
| "is_tab msg = False"

subsection \<open>An example library and environment\<close>

text \<open>
  A surface without styling, whose viewport shows its whole content and whose input widgets
  append the text typed; and a machine with a home directory, a Jira account, an API key and
  a model service that answers every text with a call of the tool \<open>get_jira_issues\<close>.
\<close>

definition plain_decode_map :: "string \<Rightarrow> error + (string \<times> any) list" where
  "plain_decode_map body =
     (if body = ''{}'' then Inr []
      else if body = ''{issues:[]}'' then Inr [(''issues'', ASlice [])]
      else Inl ''invalid character'')"

definition plain_decode_maps :: "string \<Rightarrow> error + (string \<times> any) list list" where
  "plain_decode_maps body =
     (if body = ''[]'' then Inr []
      else if body = ''[{}]'' then Inr [[]]
      else Inl ''invalid character'')"

definition plain_lib :: lib where
  "plain_lib =
     \<lparr>textinput_Update =
        (\<lambda>msg ti. (case msg of KeyMsg KeyRunes s \<Rightarrow> ti\<lparr>ti_value := ti_value ti @ s\<rparr> | _ \<Rightarrow> ti, cmd_nil)),
      textarea_Update =
        (\<lambda>msg ta. (case msg of KeyMsg KeyRunes s \<Rightarrow> ta\<lparr>ta_value := ta_value ta @ s\<rparr> | _ \<Rightarrow> ta, cmd_nil)),
      textarea_SetWidth = (\<lambda>w ta. ta\<lparr>ta_width := w\<rparr>),
      viewport_Update = (\<lambda>msg vp. (vp, cmd_nil)),
      viewport_View = vp_content,
      list_Update = (\<lambda>msg l. (l, cmd_nil)),
      pathStyle_Render = (\<lambda>s. s),
      errStyle_Render = (\<lambda>s. s),
      filepath_Join = (\<lambda>dir p. if p = [] then dir else dir @ ''/'' @ p),
      filepath_Base = (\<lambda>p. rev (takeWhile (\<lambda>c. c \<noteq> CHR ''/'') (rev p))),
      base64_EncodeToString = (\<lambda>s. s),
      MarshalIndent = (\<lambda>v. ''{...}''),
      Decode_JiraSearchResponse = (\<lambda>body. if body = ''{}'' then Inr [] else Inl ''invalid character''),
      Decode_GitHubIssues = (\<lambda>body. if body = ''[]'' then Inr [] else Inl ''invalid character''),
      Decode_map = plain_decode_map,
      Decode_maps = plain_decode_maps\<rparr>"

definition demo_Getenv :: "string \<Rightarrow> string" where
  "demo_Getenv k =
     (if k = ''JIRA_URL'' then ''https://example.atlassian.net''
      else if k = ''JIRA_EMAIL'' then ''user@example.com''
      else if k = ''JIRA_TOKEN'' then ''secret''
      else if k = ''GEMINI_API_KEY'' then ''key''
      else [])"

definition demo_env :: env where
  "demo_env =
     \<lparr>Getenv = demo_Getenv,
      Getwd = ''/home/user/project'',
      UserHomeDir = ''/home/user'',
      Stat_IsDir = (\<lambda>p. p \<in> set [''/'', ''/home'', ''/home/user'', ''/home/user/project'']),
      CombinedOutput = (\<lambda>name args dir. ([], Some ''exec: not found'')),
      NewRequest_ok = (\<lambda>url. True),
      client_Do = (\<lambda>req. Inr \<lparr>StatusCode = 200, Status = ''200 OK'', Body = ''{issues:[]}''\<rparr>),
      genai_NewClient = None,
      chatSession_SendMessage = (\<lambda>text. Inr [Some [FunctionCall ''get_jira_issues'']])\<rparr>"

section \<open>Properties\<close>

subsection \<open>Strings and widgets\<close>

lemmas sessionState_defs = viewShell_def viewJira_def viewGitHub_def viewChat_def

lemma all_dropWhile_iff: "(\<forall>x \<in> set (dropWhile P s). P x) \<longleftrightarrow> (\<forall>x \<in> set s. P x)"
  by (induction s) auto

lemma TrimSpace_empty_iff: "TrimSpace s = [] \<longleftrightarrow> (\<forall>x \<in> set (marked s). snd x)"
  by (simp add: TrimSpace_def dropWhile_eq_Nil_conv all_dropWhile_iff)

lemma fields_from_empty_iff: "fields_from xs w = [] \<longleftrightarrow> w = [] \<and> (\<forall>x \<in> set xs. snd x)"
  by (induction xs w rule: fields_from.induct) auto

lemma Fields_empty_iff: "Fields s = [] \<longleftrightarrow> TrimSpace s = []"
  by (simp add: Fields_def fields_from_empty_iff TrimSpace_empty_iff)

lemma fields_from_bytes:
  "\<forall>c \<in> set w. P c \<Longrightarrow> \<forall>x \<in> set xs. \<not> snd x \<longrightarrow> P (fst x)
    \<Longrightarrow> \<forall>f \<in> set (fields_from xs w). \<forall>c \<in> set f. P c"
proof (induction xs arbitrary: w)
  case Nil
  then show ?case by simp
next
  case (Cons x xs)
  obtain c sp where x: "x = (c, sp)" by (cases x)
  from Cons.prems(2) have rest: "\<forall>x \<in> set xs. \<not> snd x \<longrightarrow> P (fst x)" by simp
  have empty: "\<forall>f \<in> set (fields_from xs []). \<forall>c \<in> set f. P c"
    using rest by (intro Cons.IH) simp_all
  show ?case
  proof (cases sp)
    case True
    with empty Cons.prems(1) x show ?thesis by simp
  next
    case False
    with Cons.prems x have "\<forall>c \<in> set (w @ [c]). P c" by simp
    from Cons.IH [OF this rest] False x show ?thesis by simp
  qed
qed

lemma space_width_newline: "space_width (CHR 0x0A # cs) = 1"
  by (simp add: space_width_def white_space_def)

lemma newline_flagged:
  "(CHR 0x0A, b) \<in> set (zip s (space_flags s k)) \<Longrightarrow> b"
proof (induction s arbitrary: k)
  case Nil
  then show ?case by simp
next
  case (Cons a s)
  show ?case
  proof (cases "0 < k")
    case True
    with Cons.prems have "b \<or> (CHR 0x0A, b) \<in> set (zip s (space_flags s (k - 1)))"
      by auto
    then show ?thesis using Cons.IH by blast
  next
    case False
    show ?thesis
    proof (cases "0 < space_width (a # s)")
      case True
      with False Cons.prems
      have "b \<or> (CHR 0x0A, b) \<in> set (zip s (space_flags s (space_width (a # s) - 1)))"
        by auto
      then show ?thesis using Cons.IH by blast
    next
      case no_space: False
      with False Cons.prems
      have "a = CHR 0x0A \<or> (CHR 0x0A, b) \<in> set (zip s (space_flags s 0))"
        by auto
      moreover have "a \<noteq> CHR 0x0A"
        using no_space space_width_newline [of s] by auto
      ultimately show ?thesis using Cons.IH by blast
    qed
  qed
qed

lemma Fields_no_newline: "f \<in> set (Fields s) \<Longrightarrow> CHR 0x0A \<notin> set f"
proof
  assume f: "f \<in> set (Fields s)" and c: "CHR 0x0A \<in> set f"
  have "\<forall>f \<in> set (fields_from (marked s) []). \<forall>c \<in> set f. c \<noteq> CHR 0x0A"
  proof (rule fields_from_bytes)
    show "\<forall>c \<in> set []. c \<noteq> CHR 0x0A" by simp
    show "\<forall>x \<in> set (marked s). \<not> snd x \<longrightarrow> fst x \<noteq> CHR 0x0A"
    proof (intro ballI impI notI)
      fix x assume "x \<in> set (marked s)" "\<not> snd x" "fst x = CHR 0x0A"
      then have "(CHR 0x0A, snd x) \<in> set (zip s (space_flags s 0))"
        by (metis marked_def prod.collapse)
      then have "snd x" by (rule newline_flagged)
      with \<open>\<not> snd x\<close> show False by simp
    qed
  qed
  with f c show False by (auto simp: Fields_def)
qed

lemma vp_content_GotoBottom [simp]: "vp_content (GotoBottom vp) = vp_content vp"
  by (simp add: GotoBottom_def)

lemma vp_content_SetContent [simp]: "vp_content (SetContent s vp) = s"
  by (simp add: SetContent_def Let_def)

subsection \<open>The Shell pane\<close>

text \<open>The interpreter reads the pane through \<open>currentDir\<close> only.\<close>

lemma cd_target_currentDir:
  "currentDir m' = currentDir m \<Longrightarrow> cd_target L E m' args = cd_target L E m args"
  by (simp add: cd_target_def cong: if_cong)

lemma executeCommand_currentDir:
  "currentDir m' = currentDir m \<Longrightarrow> executeCommand L E m' input = executeCommand L E m input"
  by (simp add: executeCommand_def cd_target_currentDir [of m' m] cong: if_cong list.case_cong)

lemma executeCommand_upd [simp]:
  "executeCommand L E (m\<lparr>textInput := a\<rparr>) input = executeCommand L E m input"
  "executeCommand L E (m\<lparr>shell_viewport := b\<rparr>) input = executeCommand L E m input"
  by (rule executeCommand_currentDir, simp)+


lemma executeCommand_cd_missing:
  assumes "Fields input = ''cd'' # a # rest" "\<not> Stat_IsDir E (cd_target L E m (a # rest))"
  shows "executeCommand L E m input = Inr (errStyle_Render L (''cd: '' @ a @ '': No such directory''), [])"
proof -
  have "TrimSpace input \<noteq> []" using assms(1) Fields_empty_iff [of input] by auto
  then show ?thesis using assms by (simp add: executeCommand_def)
qed

lemma executeCommand_cd_found:
  assumes "Fields input = ''cd'' # cmdArgs" "Stat_IsDir E (cd_target L E m cmdArgs)"
  shows "executeCommand L E m input = Inr ([], cd_target L E m cmdArgs)"
proof -
  have "TrimSpace input \<noteq> []" using assms(1) Fields_empty_iff [of input] by auto
  then show ?thesis using assms by (simp add: executeCommand_def)
qed

text \<open>What Enter does, given what the interpreter returned (lines 64 to 82).\<close>

lemma shell_Update_Enter:
  assumes "textinput_Update L (KeyMsg KeyEnter s) (textInput m) = (ti, tiCmd)"
    and "viewport_Update L (KeyMsg KeyEnter s) (shell_viewport m) = (vp, vpCmd)"
    and "executeCommand L E m (ti_value ti) = Inr (output, newDir)"
  shows "shell_Update L E m (KeyMsg KeyEnter s) =
     Inr (m\<lparr>textInput := Reset ti,
            currentDir := (if newDir \<noteq> [] then newDir else currentDir m),
            shell_viewport := GotoBottom (SetContent
               (viewport_View L vp @ nl @ prompt_line L (if newDir \<noteq> [] then newDir else currentDir m) (ti_value ti)
                  @ nl @ output) vp)\<rparr>,
          tea_Batch [tiCmd, vpCmd])"
  using assms by (simp add: shell_Update_def Let_def)


lemma shell_New_simps [simp]:
  "currentDir (shell_New E) = Getwd E"
  "textInput (shell_New E) = \<lparr>ti_value = [], ti_Width = 20\<rparr>"
  "vp_content (shell_viewport (shell_New E)) =
     ''Welcome to TermiFlow Shell!'' @ nl @ ''Current Directory: '' @ Getwd E @ nl"
  "vp_Width (shell_viewport (shell_New E)) = 30"
  by (simp_all add: shell_New_def Let_def viewport_New_def SetContent_def GotoBottom_def)

lemma plain_lib_simps [simp]:
  "viewport_Update plain_lib msg vp = (vp, cmd_nil)"
  "viewport_View plain_lib vp = vp_content vp"
  "list_Update plain_lib msg l = (l, cmd_nil)"
  "pathStyle_Render plain_lib s = s"
  "errStyle_Render plain_lib s = s"
  "textinput_Update plain_lib (KeyMsg KeyEnter s) ti = (ti, cmd_nil)"
  "textarea_Update plain_lib (KeyMsg KeyEnter s) ta = (ta, cmd_nil)"
  "textarea_Update plain_lib (KeyMsg KeyRunes s) ta = (ta\<lparr>ta_value := ta_value ta @ s\<rparr>, cmd_nil)"
  "textarea_SetWidth plain_lib w ta = ta\<lparr>ta_width := w\<rparr>"
  "MarshalIndent plain_lib v = ''{...}''"
  by (simp_all add: plain_lib_def)

lemma demo_env_simps [simp]:
  "Getwd demo_env = ''/home/user/project''"
  "UserHomeDir demo_env = ''/home/user''"
  "Getenv demo_env = demo_Getenv"
  "genai_NewClient demo_env = None"
  "NewRequest_ok demo_env url = True"
  by (simp_all add: demo_env_def)




text \<open>
  What holds of \<open>cd\<close>. Enter on \<open>cd a ...\<close>, where the directory \<open>a\<close> resolves to does not
  exist or is not a directory, leaves \<open>currentDir\<close> as it was and appends to the transcript the
  prompt line and one line of error text (the text has no line break). Enter on \<open>cd\<close> alone
  checks the user's home directory (when that is an absolute path), and moves there when it
  is a directory.
\<close>

lemma cd_with_argument_or_home:
  assumes "textinput_Update L (KeyMsg KeyEnter s) (textInput m) = (ti, tiCmd)"
    and "viewport_Update L (KeyMsg KeyEnter s) (shell_viewport m) = (vp, vpCmd)"
  shows "(Fields (ti_value ti) = ''cd'' # a # rest \<and> \<not> Stat_IsDir E (cd_target L E m (a # rest)) \<longrightarrow>
           (\<exists>m'. shell_Update L E m (KeyMsg KeyEnter s) = Inr (m', tea_Batch [tiCmd, vpCmd]) \<and>
              currentDir m' = currentDir m \<and>
              vp_content (shell_viewport m') =
                viewport_View L vp @ nl @ prompt_line L (currentDir m) (ti_value ti) @ nl
                  @ errStyle_Render L (''cd: '' @ a @ '': No such directory'')) \<and>
           CHR 0x0A \<notin> set (''cd: '' @ a @ '': No such directory''))
       \<and> (Fields (ti_value ti) = [''cd''] \<and> IsAbs (UserHomeDir E) \<longrightarrow>
           cd_target L E m [] = UserHomeDir E \<and>
           (Stat_IsDir E (UserHomeDir E) \<longrightarrow>
             (\<exists>m'. shell_Update L E m (KeyMsg KeyEnter s) = Inr (m', tea_Batch [tiCmd, vpCmd]) \<and>
                currentDir m' = UserHomeDir E)))"
proof (intro conjI impI)
  assume h: "Fields (ti_value ti) = ''cd'' # a # rest \<and> \<not> Stat_IsDir E (cd_target L E m (a # rest))"
  then have ex: "executeCommand L E m (ti_value ti)
      = Inr (errStyle_Render L (''cd: '' @ a @ '': No such directory''), [])"
    by (intro executeCommand_cd_missing) auto
  from shell_Update_Enter [OF assms ex]
  show "\<exists>m'. shell_Update L E m (KeyMsg KeyEnter s) = Inr (m', tea_Batch [tiCmd, vpCmd]) \<and>
      currentDir m' = currentDir m \<and>
      vp_content (shell_viewport m') =
        viewport_View L vp @ nl @ prompt_line L (currentDir m) (ti_value ti) @ nl
          @ errStyle_Render L (''cd: '' @ a @ '': No such directory'')"
    by simp
  from h have "a \<in> set (Fields (ti_value ti))" by simp
  then have "CHR 0x0A \<notin> set a" by (rule Fields_no_newline)
  then show "CHR 0x0A \<notin> set (''cd: '' @ a @ '': No such directory'')" by simp
next
  assume h: "Fields (ti_value ti) = [''cd''] \<and> IsAbs (UserHomeDir E)"
  then show target: "cd_target L E m [] = UserHomeDir E"
    by (simp add: cd_target_def)
  assume dir: "Stat_IsDir E (UserHomeDir E)"
  from h have nonempty: "UserHomeDir E \<noteq> []" by (auto simp: IsAbs_def)
  have ex: "executeCommand L E m (ti_value ti) = Inr ([], UserHomeDir E)"
    using executeCommand_cd_found [of "ti_value ti" "[]" E L m] h dir target by simp
  from shell_Update_Enter [OF assms ex] nonempty
  show "\<exists>m'. shell_Update L E m (KeyMsg KeyEnter s) = Inr (m', tea_Batch [tiCmd, vpCmd]) \<and>
      currentDir m' = UserHomeDir E"
    by simp
qed

lemma executeCommand_cd_home_missing:
  assumes "Fields input = [''cd'']" "\<not> Stat_IsDir E (cd_target L E m [])"
  shows "executeCommand L E m input = Inl IndexOutOfRange"
proof -
  have "TrimSpace input \<noteq> []" using assms(1) Fields_empty_iff [of input] by auto
  then show ?thesis using assms by (simp add: executeCommand_def)
qed

text \<open>
  Claim C8 fails on the code. Enter on \<open>cd\<close> alone takes the user's home directory as its
  target (joined to the current directory when it is not absolute). When that target does not
  exist or is not a directory, the branch that writes the error line reads \<open>cmdArgs[0]\<close> of
  an empty slice (line 127) and panics: \<open>Update\<close> returns nothing, and no error line is
  appended. This is the slip of claim C10. With an argument the claim holds, as shown above.
\<close>

theorem cd_to_missing_home_panics:
  assumes "textinput_Update L (KeyMsg KeyEnter s) (textInput m) = (ti, tiCmd)"
    and "Fields (ti_value ti) = [''cd'']"
    and "\<not> Stat_IsDir E (cd_target L E m [])"
  shows "cd_target L E m [] =
           (if IsAbs (UserHomeDir E) then UserHomeDir E
            else filepath_Join L (currentDir m) (UserHomeDir E))
       \<and> executeCommand L E m (ti_value ti) = Inl IndexOutOfRange
       \<and> shell_Update L E m (KeyMsg KeyEnter s) = Inl IndexOutOfRange"
proof -
  have target: "cd_target L E m [] =
      (if IsAbs (UserHomeDir E) then UserHomeDir E
       else filepath_Join L (currentDir m) (UserHomeDir E))"
    by (simp add: cd_target_def)
  have ex: "executeCommand L E m (ti_value ti) = Inl IndexOutOfRange"
    using assms(2,3) by (rule executeCommand_cd_home_missing)
  obtain vp vpCmd where vp: "viewport_Update L (KeyMsg KeyEnter s) (shell_viewport m) = (vp, vpCmd)"
    by (cases "viewport_Update L (KeyMsg KeyEnter s) (shell_viewport m)")
  have "shell_Update L E m (KeyMsg KeyEnter s) = Inl IndexOutOfRange"
    using assms(1) vp ex by (simp add: shell_Update_def Let_def)
  with target ex show ?thesis by simp
qed

theorem cd_to_missing_home_panics_witness:
  "Fields ''cd'' = [''cd''] \<and>
   cd_target plain_lib (demo_env\<lparr>UserHomeDir := ''/home/gone''\<rparr>)
       ((shell_New demo_env)\<lparr>textInput := \<lparr>ti_value = ''cd'', ti_Width = 20\<rparr>\<rparr>) [] = ''/home/gone'' \<and>
   \<not> Stat_IsDir (demo_env\<lparr>UserHomeDir := ''/home/gone''\<rparr>) ''/home/gone'' \<and>
   shell_Update plain_lib (demo_env\<lparr>UserHomeDir := ''/home/gone''\<rparr>)
       ((shell_New demo_env)\<lparr>textInput := \<lparr>ti_value = ''cd'', ti_Width = 20\<rparr>\<rparr>)
       (KeyMsg KeyEnter ''enter'') = Inl IndexOutOfRange"
proof -
  let ?E = "demo_env\<lparr>UserHomeDir := ''/home/gone''\<rparr>"
  let ?ti = "\<lparr>ti_value = ''cd'', ti_Width = 20\<rparr>"
  let ?m = "(shell_New demo_env)\<lparr>textInput := ?ti\<rparr>"
  have f: "Fields ''cd'' = [''cd'']"
    by code_simp
  have ti: "textinput_Update plain_lib (KeyMsg KeyEnter ''enter'') (textInput ?m) = (?ti, cmd_nil)"
    by simp
  have target: "cd_target plain_lib ?E ?m [] = ''/home/gone''"
    by (simp add: cd_target_def IsAbs_def)
  have gone: "\<not> Stat_IsDir ?E ''/home/gone''"
    by (simp add: demo_env_def)
  have f': "Fields (ti_value ?ti) = [''cd'']"
    using f by simp
  have gone': "\<not> Stat_IsDir ?E (cd_target plain_lib ?E ?m [])"
    using gone target by simp
  from cd_to_missing_home_panics [OF ti f' gone'] f target gone
  show ?thesis by simp
qed

text \<open>
  Claim C10 fails on the code: \<open>cd\<close> without an argument, when the home directory is not a
  directory, reaches \<open>cmdArgs[0]\<close> on an empty slice (line 127), which panics with an index
  out of range.
\<close>

theorem cd_without_argument_panics:
  "executeCommand plain_lib (demo_env\<lparr>UserHomeDir := ''/nonexistent''\<rparr>) (shell_New demo_env) ''cd''
     = Inl IndexOutOfRange \<and>
   shell_Update plain_lib (demo_env\<lparr>UserHomeDir := ''/nonexistent''\<rparr>)
       ((shell_New demo_env)\<lparr>textInput := \<lparr>ti_value = ''cd'', ti_Width = 20\<rparr>\<rparr>) (KeyMsg KeyEnter ''enter'')
     = Inl IndexOutOfRange"
proof -
  let ?E = "demo_env\<lparr>UserHomeDir := ''/nonexistent''\<rparr>"
  have f: "Fields ''cd'' = [''cd'']" "TrimSpace ''cd'' = ''cd''"
    by code_simp+
  have t: "\<not> Stat_IsDir ?E (cd_target plain_lib ?E m [])" for m
    by (simp add: cd_target_def IsAbs_def demo_env_def)
  have ex: "executeCommand plain_lib ?E m ''cd'' = Inl IndexOutOfRange" for m
    using t [of m] by (simp add: executeCommand_def f)
  then show ?thesis
    by (simp add: shell_Update_def Let_def Reset_def)
qed

subsection \<open>The composer\<close>

lemma tab_step:
  assumes "tabs m \<noteq> []" "0 \<le> state m" "state m < int (length (tabs m))" "int (length (tabs m)) < 2 ^ 63"
  shows "Update L E m (KeyMsg t ''tab'') = Inr (m\<lparr>state := (state m + 1) mod int (length (tabs m))\<rparr>, cmd_nil)"
proof -
  have "int64 (state m + 1) = state m + 1"
    unfolding int64_def using assms by (intro signed_take_bit_int_eq_self) auto
  moreover have "go_rem (state m + 1) (int (length (tabs m))) = (state m + 1) mod int (length (tabs m))"
    using assms by (simp add: go_rem_def signed_modulo_int_def)
  ultimately show ?thesis using assms by (simp add: Update_def)
qed

lemma tabs_run:
  assumes "tabs m \<noteq> []" "0 \<le> state m" "state m < int (length (tabs m))" "int (length (tabs m)) < 2 ^ 63"
    and "\<forall>msg \<in> set msgs. is_tab msg"
  shows "Updates L E m msgs =
     Inr (m\<lparr>state := (state m + int (length msgs)) mod int (length (tabs m))\<rparr>, replicate (length msgs) cmd_nil)"
  using assms
proof (induction msgs arbitrary: m)
  case Nil
  then show ?case by simp
next
  case (Cons msg msgs)
  from Cons.prems obtain t where msg: "msg = KeyMsg t ''tab''"
    by (cases msg) auto
  let ?n = "int (length (tabs m))"
  let ?m' = "m\<lparr>state := (state m + 1) mod ?n\<rparr>"
  have step: "Update L E m msg = Inr (?m', cmd_nil)"
    unfolding msg using Cons.prems by (intro tab_step) auto
  have npos: "0 < ?n" using Cons.prems by simp
  have "Updates L E ?m' msgs =
     Inr (?m'\<lparr>state := (state ?m' + int (length msgs)) mod int (length (tabs ?m'))\<rparr>,
          replicate (length msgs) cmd_nil)"
  proof (rule Cons.IH)
    show "tabs ?m' \<noteq> []" using Cons.prems by simp
    show "0 \<le> state ?m'" using npos by simp
    show "state ?m' < int (length (tabs ?m'))" using npos by simp
    show "int (length (tabs ?m')) < 2 ^ 63" using Cons.prems by simp
    show "\<forall>msg \<in> set msgs. is_tab msg" using Cons.prems by simp
  qed
  then have rest: "Updates L E ?m' msgs =
     Inr (m\<lparr>state := ((state m + 1) mod ?n + int (length msgs)) mod ?n\<rparr>, replicate (length msgs) cmd_nil)"
    by simp
  have "((state m + 1) mod ?n + int (length msgs)) mod ?n = (state m + (1 + int (length msgs))) mod ?n"
    by (simp add: mod_add_left_eq add.assoc)
  with step rest show ?case by simp
qed

text \<open>
  Claim C9. From a composer whose index names one of its panes, every tab key moves the index
  to the next pane, and from the last pane to pane zero; the composer returns at once with
  no command, so every pane is as it was. After any sequence of tab keys the index is the
  first index plus the number of keys, modulo the number of panes.
\<close>

theorem tab_advance_cycles:
  assumes "tabs m \<noteq> []" "0 \<le> state m" "state m < int (length (tabs m))" "int (length (tabs m)) < 2 ^ 63"
    and "\<forall>msg \<in> set msgs. is_tab msg"
  shows "Update L E m (KeyMsg t ''tab'') =
           Inr (m\<lparr>state := (if state m + 1 = int (length (tabs m)) then 0 else state m + 1)\<rparr>, cmd_nil)
       \<and> Updates L E m msgs =
           Inr (m\<lparr>state := (state m + int (length msgs)) mod int (length (tabs m))\<rparr>,
                replicate (length msgs) cmd_nil)"
proof
  have "(state m + 1) mod int (length (tabs m)) =
      (if state m + 1 = int (length (tabs m)) then 0 else state m + 1)"
    using assms(2,3) by simp
  with tab_step [OF assms(1-4), of L E t]
  show "Update L E m (KeyMsg t ''tab'') =
      Inr (m\<lparr>state := (if state m + 1 = int (length (tabs m)) then 0 else state m + 1)\<rparr>, cmd_nil)"
    by simp
  show "Updates L E m msgs =
      Inr (m\<lparr>state := (state m + int (length msgs)) mod int (length (tabs m))\<rparr>,
           replicate (length msgs) cmd_nil)"
    using assms by (rule tabs_run)
qed

theorem tab_advance_cycles_witness:
  "Update plain_lib demo_env ((New plain_lib demo_env)\<lparr>state := viewChat\<rparr>) (KeyMsg KeyTab ''tab'')
     = Inr (New plain_lib demo_env, cmd_nil)
   \<and> Updates plain_lib demo_env ((New plain_lib demo_env)\<lparr>state := viewChat\<rparr>)
       (replicate 6 (KeyMsg KeyTab ''tab''))
     = Inr ((New plain_lib demo_env)\<lparr>state := viewJira\<rparr>, replicate 6 cmd_nil)"
proof -
  let ?m = "(New plain_lib demo_env)\<lparr>state := viewChat\<rparr>"
  have tabs: "tabs ?m = [''Shell'', ''Jira'', ''GitHub'', ''Chat'']" and st: "state ?m = 3"
    by (simp_all add: New_def viewChat_def)
  have h: "tabs ?m \<noteq> []" "0 \<le> state ?m" "state ?m < int (length (tabs ?m))"
      "int (length (tabs ?m)) < 2 ^ 63"
      "\<forall>msg \<in> set (replicate 6 (KeyMsg KeyTab ''tab'')). is_tab msg"
    by (simp_all add: tabs st)
  have first_pane: "?m\<lparr>state := 0\<rparr> = New plain_lib demo_env"
    by (simp add: New_def viewShell_def)
  from tab_advance_cycles [OF h, of plain_lib demo_env KeyTab] first_pane
  show ?thesis by (simp add: tabs st viewJira_def)
qed

text \<open>
  Claim C1 fails on the code. \<open>Init\<close> issues the fetch of the GitHub pane while the Shell
  pane is the active one. When the fetch completes, \<open>Update\<close> hands its message to the
  active pane, the Shell, which has no use for it: the composer, and with it the GitHub pane,
  is as it was, though the GitHub pane's own \<open>Update\<close> would have listed the issue. An error
  message of the fetch is lost the same way.
\<close>

theorem fetch_result_goes_to_active_pane:
  "state (New plain_lib demo_env) = viewShell \<and>
   github_fetchIssues \<in> set (leaves (Init (New plain_lib demo_env))) \<and>
   Update plain_lib demo_env (New plain_lib demo_env)
       (github_issuesFetchedMsg [\<lparr>Number = 7, Title = ''Crash'', State = ''open'', UserLogin = ''ann''\<rparr>])
     = Inr (New plain_lib demo_env, tea_Batch [tea_Batch [cmd_nil, cmd_nil]]) \<and>
   Update plain_lib demo_env (New plain_lib demo_env) (errMsg ''timeout'')
     = Inr (New plain_lib demo_env, tea_Batch [tea_Batch [cmd_nil, cmd_nil]]) \<and>
   l_items (github_list (github (New plain_lib demo_env))) = [] \<and>
   l_items (github_list (fst (github_Update plain_lib (github (New plain_lib demo_env))
       (github_issuesFetchedMsg [\<lparr>Number = 7, Title = ''Crash'', State = ''open'', UserLogin = ''ann''\<rparr>]))))
     = [\<lparr>title = ''#7 Crash'', desc = ''by ann [open]''\<rparr>]"
proof -
  let ?msg = "github_issuesFetchedMsg [\<lparr>Number = 7, Title = ''Crash'', State = ''open'', UserLogin = ''ann''\<rparr>]"
  have sh: "shell_Update plain_lib demo_env (shell_New demo_env) ?msg
      = Inr (shell_New demo_env, tea_Batch [cmd_nil, cmd_nil])"
    by (simp add: shell_Update_def plain_lib_def Let_def)
  have sh': "shell_Update plain_lib demo_env (shell_New demo_env) (errMsg ''timeout'')
      = Inr (shell_New demo_env, tea_Batch [cmd_nil, cmd_nil])"
    by (simp add: shell_Update_def plain_lib_def Let_def)
  have seven: "itoa 7 = ''7''"
    by code_simp
  have "Update plain_lib demo_env (New plain_lib demo_env) ?msg
      = Inr (New plain_lib demo_env, tea_Batch [tea_Batch [cmd_nil, cmd_nil]])"
    by (simp add: Update_def update_active_def New_def viewShell_def sh)
  moreover have "Update plain_lib demo_env (New plain_lib demo_env) (errMsg ''timeout'')
      = Inr (New plain_lib demo_env, tea_Batch [tea_Batch [cmd_nil, cmd_nil]])"
    by (simp add: Update_def update_active_def New_def viewShell_def sh')
  moreover have "github_fetchIssues \<in> set (leaves (Init (New plain_lib demo_env)))"
    by (simp add: Init_def shell_Init_def jira_Init_def github_Init_def chat_Init_def)
  moreover have "l_items (github_list (fst (github_Update plain_lib (github (New plain_lib demo_env)) ?msg)))
      = [\<lparr>title = ''#7 Crash'', desc = ''by ann [open]''\<rparr>]"
    by (simp add: github_Update_def github_item_def seven SetItems_def New_def github_New_def list_New_def)
  ultimately show ?thesis
    by (simp add: New_def github_New_def list_New_def)
qed

text \<open>
  Claim C4 fails on the code. On a resize the composer sets the size of the Jira, GitHub and
  Chat panes, and leaves the Shell pane to the second switch, which reaches it only when it is
  the active pane. With the Jira pane active, the Shell pane keeps the width 30 it was
  created with.
\<close>

theorem inactive_shell_misses_resize:
  "(case Update plain_lib demo_env ((New plain_lib demo_env)\<lparr>state := viewJira\<rparr>) (WindowSizeMsg 120 40) of
      Inl p \<Rightarrow> False
    | Inr (m', c) \<Rightarrow>
        width m' = 120 \<and> height m' = 40 \<and>
        l_width (jira_list (jira m')) = 120 \<and>
        l_width (github_list (github m')) = 120 \<and>
        vp_Width (chat_viewport (chat m')) = 120 \<and>
        shell m' = shell_New demo_env \<and>
        vp_Width (shell_viewport (shell m')) = 30 \<and> vp_Height (shell_viewport (shell m')) = 20)"
  by (simp add: Update_def update_active_def New_def sessionState_defs Let_def
      jira_SetSize_def github_SetSize_def chat_SetSize_def jira_Update_def list_SetSize_def
      shell_New_def viewport_New_def SetContent_def line_count_def)

subsection \<open>The issue lists\<close>

text \<open>
  Claim C6 fails on the code for the GitHub pane. A fetch that returns no issue leaves the
  GitHub list empty, where the Jira pane puts the entry \<open>No issues found\<close>.
\<close>

theorem github_empty_fetch_gives_empty_list:
  "l_items (github_list (fst (github_Update plain_lib github_New (github_issuesFetchedMsg [])))) = [] \<and>
   l_items (jira_list (fst (jira_Update plain_lib jira_New (jira_issuesFetchedMsg []))))
     = [\<lparr>title = ''No issues found'', desc = ''You have no assigned issues.''\<rparr>]"
  by (simp add: github_Update_def jira_Update_def SetItems_def github_New_def jira_New_def list_New_def)

subsection \<open>The tools\<close>

text \<open>
  Claim C5 fails on the code. The Jira server answers with status 200 and the body \<open>{}\<close>:
  the body decodes to a map without the key \<open>issues\<close>, the type assertion of line 95 panics,
  and so does the command \<open>sendMessage\<close> that called the tool. The GitHub tool panics the
  same way on an issue without a \<open>user\<close> object (line 53).
\<close>

theorem tool_panics_on_unexpected_payload:
  "getJiraIssues plain_lib
       (demo_env\<lparr>client_Do := (\<lambda>req. Inr \<lparr>StatusCode = 200, Status = ''200 OK'', Body = ''{}''\<rparr>)\<rparr>)
     = Inl InterfaceConversion \<and>
   run_sendMessage plain_lib
       (demo_env\<lparr>client_Do := (\<lambda>req. Inr \<lparr>StatusCode = 200, Status = ''200 OK'', Body = ''{}''\<rparr>)\<rparr>)
       True ''my issues''
     = Inl InterfaceConversion \<and>
   getGitHubIssues plain_lib
       (demo_env\<lparr>client_Do := (\<lambda>req. Inr \<lparr>StatusCode = 200, Status = ''200 OK'', Body = ''[{}]''\<rparr>)\<rparr>)
     = Inl InterfaceConversion"
proof -
  let ?E = "demo_env\<lparr>client_Do := (\<lambda>req. Inr \<lparr>StatusCode = 200, Status = ''200 OK'', Body = ''{}''\<rparr>)\<rparr>"
  let ?E' = "demo_env\<lparr>client_Do := (\<lambda>req. Inr \<lparr>StatusCode = 200, Status = ''200 OK'', Body = ''[{}]''\<rparr>)\<rparr>"
  have jira: "getJiraIssues plain_lib ?E = Inl InterfaceConversion"
    by (simp add: getJiraIssues_def demo_Getenv_def plain_lib_def plain_decode_map_def index_def)
  have reply: "chatSession_SendMessage demo_env ''my issues'' = Inr [Some [FunctionCall ''get_jira_issues'']]"
    by (simp add: demo_env_def)
  have key: "demo_Getenv ''GEMINI_API_KEY'' \<noteq> []"
    by (simp add: demo_Getenv_def)
  have tool: "toolFunctions ''get_jira_issues'' = Some getJiraIssues"
    by (simp add: toolFunctions_def)
  have send: "run_sendMessage plain_lib ?E True ''my issues'' = Inl InterfaceConversion"
    by (simp add: run_sendMessage_def key reply tool jira)
  have github: "getGitHubIssues plain_lib ?E' = Inl InterfaceConversion"
    by (simp add: getGitHubIssues_def demo_Getenv_def plain_lib_def plain_decode_maps_def index_def)
  from jira send github show ?thesis by simp
qed

subsection \<open>The Chat pane\<close>

lemma ensureClient_upd:
  "ensureClient E (m\<lparr>chat_textarea := a\<rparr>) = (fst (ensureClient E m), (snd (ensureClient E m))\<lparr>chat_textarea := a\<rparr>)"
  "ensureClient E (m\<lparr>chat_viewport := b\<rparr>) = (fst (ensureClient E m), (snd (ensureClient E m))\<lparr>chat_viewport := b\<rparr>)"
  by (simp_all add: ensureClient_def Let_def split: option.splits)

lemma ensureClient_messages [simp]: "messages (snd (ensureClient E m)) = messages m"
  by (simp add: ensureClient_def Let_def split: option.splits)

lemma messages_updateViewport [simp]: "messages (updateViewport m) = messages m"
  by (simp add: updateViewport_def Let_def)

lemma chatSession_updateViewport [simp]: "chatSession (updateViewport m) = chatSession m"
  by (simp add: updateViewport_def Let_def)

lemma chat_textarea_updateViewport [simp]: "chat_textarea (updateViewport m) = chat_textarea m"
  by (simp add: updateViewport_def Let_def)

lemma chat_Update_Enter:
  assumes "textarea_Update L (KeyMsg KeyEnter s) (chat_textarea m) = (ta, tiCmd)"
    and "viewport_Update L (KeyMsg KeyEnter s) (chat_viewport m) = (vp, vpCmd)"
    and "ta_value ta \<noteq> []" "fst (ensureClient E m) = None"
  shows "chat_Update L E m (KeyMsg KeyEnter s) =
     ((updateViewport ((snd (ensureClient E m))
          \<lparr>chat_textarea := ta, chat_viewport := vp,
            messages := messages m @ [\<lparr>Role = ''user'', Content = ta_value ta\<rparr>]\<rparr>))
        \<lparr>chat_textarea := textarea_Reset ta\<rparr>,
      tea_Batch [tiCmd, vpCmd, sendMessage (chatSession (snd (ensureClient E m))) (ta_value ta)])"
proof -
  obtain m' where ec: "ensureClient E m = (None, m')"
    using assms(4) by (cases "ensureClient E m") auto
  have "ensureClient E (m\<lparr>chat_textarea := ta, chat_viewport := vp\<rparr>)
      = (None, m'\<lparr>chat_textarea := ta, chat_viewport := vp\<rparr>)"
    by (simp add: ensureClient_upd ec)
  moreover have "messages m' = messages m"
    using ensureClient_messages [of E m] ec by simp
  ultimately show ?thesis
    using assms(1-3) ec by (simp add: chat_Update_def Let_def)
qed

text \<open>
  Claim C3, as amended. The Chat pane keeps no record of a pending send. Whatever commands are
  still running, Enter on a non-empty text, with a client that is or can be set up, appends the
  user's turn and issues a command sending the text to the model service.
\<close>

theorem submit_always_sends:
  assumes "textarea_Update L (KeyMsg KeyEnter s) (chat_textarea m) = (ta, tiCmd)"
    and "viewport_Update L (KeyMsg KeyEnter s) (chat_viewport m) = (vp, vpCmd)"
    and "ta_value ta \<noteq> []" "fst (ensureClient E m) = None"
  shows "snd (chat_Update L E m (KeyMsg KeyEnter s)) =
           tea_Batch [tiCmd, vpCmd, sendMessage (chatSession (snd (ensureClient E m))) (ta_value ta)]
       \<and> messages (fst (chat_Update L E m (KeyMsg KeyEnter s))) =
           messages m @ [\<lparr>Role = ''user'', Content = ta_value ta\<rparr>]"
  unfolding chat_Update_Enter [OF assms] by simp

theorem submit_always_sends_witness:
  "snd (chat_Update plain_lib demo_env
      ((chat_New plain_lib)\<lparr>chat_textarea := \<lparr>ta_value = ''yo'', ta_width = 50, ta_height = 3\<rparr>,
          messages := [\<lparr>Role = ''user'', Content = ''hi''\<rparr>],
          client := True, model := Some ''gemini-1.5-flash-002'', chatSession := True, initialized := True\<rparr>)
      (KeyMsg KeyEnter ''enter''))
     = tea_Batch [cmd_nil, cmd_nil, sendMessage True ''yo'']
   \<and> messages (fst (chat_Update plain_lib demo_env
      ((chat_New plain_lib)\<lparr>chat_textarea := \<lparr>ta_value = ''yo'', ta_width = 50, ta_height = 3\<rparr>,
          messages := [\<lparr>Role = ''user'', Content = ''hi''\<rparr>],
          client := True, model := Some ''gemini-1.5-flash-002'', chatSession := True, initialized := True\<rparr>)
      (KeyMsg KeyEnter ''enter'')))
     = [\<lparr>Role = ''user'', Content = ''hi''\<rparr>, \<lparr>Role = ''user'', Content = ''yo''\<rparr>]"
proof -
  let ?ta = "\<lparr>ta_value = ''yo'', ta_width = 50, ta_height = 3\<rparr>"
  let ?m = "(chat_New plain_lib)\<lparr>chat_textarea := ?ta,
          messages := [\<lparr>Role = ''user'', Content = ''hi''\<rparr>],
          client := True, model := Some ''gemini-1.5-flash-002'', chatSession := True, initialized := True\<rparr>"
  have ta: "textarea_Update plain_lib (KeyMsg KeyEnter ''enter'') (chat_textarea ?m) = (?ta, cmd_nil)"
    by simp
  have vp: "viewport_Update plain_lib (KeyMsg KeyEnter ''enter'') (chat_viewport ?m) = (chat_viewport ?m, cmd_nil)"
    by simp
  have nonempty: "ta_value ?ta \<noteq> []"
    by simp
  have ec: "ensureClient demo_env ?m = (None, ?m)"
    by (simp add: ensureClient_def)
  then have ok: "fst (ensureClient demo_env ?m) = None"
    by simp
  from submit_always_sends [OF ta vp nonempty ok] ec show ?thesis
    by simp
qed

text \<open>
  Claim C3, as stated, fails: with the Chat pane active, the user types a text and presses
  Enter, types another and presses Enter again. No reply has arrived in between, and both
  Enter keys return a command that sends to the model service.
\<close>

theorem second_submit_sends_while_pending:
  "\<not> isl (Updates plain_lib demo_env ((New plain_lib demo_env)\<lparr>state := viewChat\<rparr>)
       [KeyMsg KeyRunes ''hi'', KeyMsg KeyEnter ''enter'', KeyMsg KeyRunes ''yo'', KeyMsg KeyEnter ''enter'']) \<and>
   map (filter is_sendMessage \<circ> leaves)
     (snd (projr (Updates plain_lib demo_env ((New plain_lib demo_env)\<lparr>state := viewChat\<rparr>)
       [KeyMsg KeyRunes ''hi'', KeyMsg KeyEnter ''enter'', KeyMsg KeyRunes ''yo'', KeyMsg KeyEnter ''enter''])))
     = [[], [sendMessage True ''hi''], [], [sendMessage True ''yo'']]"
  by code_simp

text \<open>
  Claim C2 fails on the code. The model service answers with a call of the tool
  \<open>get_jira_issues\<close>, and the tool succeeds. The command returns the serialized result as
  the response text; the pane appends it as a turn of role \<open>model\<close> and issues no command:
  nothing is sent back to the model service, and the conversation ends on the tool's output.
\<close>

theorem tool_output_is_not_resent:
  "getJiraIssues plain_lib demo_env = Inr (Inr (AMap [(''issues'', ANilSlice)])) \<and>
   run_sendMessage plain_lib demo_env True ''my issues''
     = Inr (chat_responseMsg (nl @ ''[Tool get_jira_issues Output]:'' @ nl @ ''{...}'' @ nl)) \<and>
   map Role (messages (fst (chat_Update plain_lib demo_env
       ((chat_New plain_lib)\<lparr>messages := [\<lparr>Role = ''user'', Content = ''my issues''\<rparr>],
           client := True, model := Some ''gemini-1.5-flash-002'', chatSession := True, initialized := True\<rparr>)
       (chat_responseMsg (nl @ ''[Tool get_jira_issues Output]:'' @ nl @ ''{...}'' @ nl)))))
     = [''user'', ''model''] \<and>
   leaves (snd (chat_Update plain_lib demo_env
       ((chat_New plain_lib)\<lparr>messages := [\<lparr>Role = ''user'', Content = ''my issues''\<rparr>],
           client := True, model := Some ''gemini-1.5-flash-002'', chatSession := True, initialized := True\<rparr>)
       (chat_responseMsg (nl @ ''[Tool get_jira_issues Output]:'' @ nl @ ''{...}'' @ nl))))
     = []"
proof -
  have jira: "getJiraIssues plain_lib demo_env = Inr (Inr (AMap [(''issues'', ANilSlice)]))"
    by (simp add: getJiraIssues_def demo_Getenv_def demo_env_def plain_lib_def plain_decode_map_def
        index_def slice_of_def)
  have reply: "chatSession_SendMessage demo_env ''my issues'' = Inr [Some [FunctionCall ''get_jira_issues'']]"
    by (simp add: demo_env_def)
  have key: "demo_Getenv ''GEMINI_API_KEY'' \<noteq> []"
    by (simp add: demo_Getenv_def)
  have tool: "toolFunctions ''get_jira_issues'' = Some getJiraIssues"
    by (simp add: toolFunctions_def)
  have send: "run_sendMessage plain_lib demo_env True ''my issues''
      = Inr (chat_responseMsg (nl @ ''[Tool get_jira_issues Output]:'' @ nl @ ''{...}'' @ nl))"
    by (simp add: run_sendMessage_def key reply tool jira)
  from jira send show ?thesis
    by (simp add: chat_Update_def Let_def plain_lib_def)
qed

end
